theory Spec2Isabelle
  imports Main "HOL-Library.AList"
begin

section \<open>Application objects and their callbacks\<close>

text \<open>
  Objects are compared by reference in the source (\<^verbatim>\<open>===\<close>), so every object that the
  core compares or hands back carries its identity, an \<open>oid\<close>.

  The application's own mutable state (the fields of its mediators and proxies, view
  components, value objects) is the type parameter \<open>'w\<close>. A callback supplied by the
  application (a notification handler, \<^verbatim>\<open>onRegister\<close>, \<^verbatim>\<open>onRemove\<close>) is an
  \<open>'w effect\<close>: it reads and writes that state and either returns or throws. What it has
  written before throwing stays written. The core has no \<^verbatim>\<open>try\<close>/\<^verbatim>\<open>catch\<close>: what a
  callback throws (or the rejection of the promise it returns) is the outcome \<open>Thrown\<close> of
  the operation that called it.

  The maps of \<^verbatim>\<open>View\<close> and \<^verbatim>\<open>Model\<close> are private fields (\<^verbatim>\<open>#mediatorMap\<close>,
  \<^verbatim>\<open>#observerMap\<close>, \<^verbatim>\<open>#proxyMap\<close>) and are not part of \<open>'w\<close>. In the source a mediator or
  a proxy is a \<^verbatim>\<open>Notifier\<close> and holds the facade, so its handler or hook could call
  \<^verbatim>\<open>registerObserver\<close>, \<^verbatim>\<open>registerMediator\<close>, \<^verbatim>\<open>registerProxy\<close> and the like while the
  registry is in the middle of the operation that invoked it. That is outside this model:
  here a callback changes the application's own state and nothing else, so the maps
  change only through the operations below, called from outside any callback. Every
  statement of this theory is to be read with that proviso. Likewise the accessors
  \<^verbatim>\<open>getMediatorName\<close>, \<^verbatim>\<open>getProxyName\<close>, \<^verbatim>\<open>listNotificationInterests\<close> and \<^verbatim>\<open>getData\<close> are
  application methods that here only read the application's state and return; one that
  throws or writes is outside the model as well.
\<close>

type_synonym oid = nat

datatype error = Error string

datatype 'a completion = Returned 'a | Thrown error

type_synonym 'w effect = "'w \<Rightarrow> unit completion \<times> 'w"

text \<open>\<^verbatim>\<open>INotification\<close>: the core only ever calls \<^verbatim>\<open>getName()\<close>; body and type travel
  with the notification untouched.\<close>

record notification =
  getName :: string
  getBody :: "oid option"
  getType :: "string option"

text \<open>
  A log of the calls the core makes into application code, in the order it makes them:
  \<open>NotifyCall c n\<close> is a notification method invoked with receiver \<open>c\<close> and argument \<open>n\<close>,
  \<open>OnRegisterCall x\<close> and \<open>OnRemoveCall x\<close> are the lifecycle hooks of the object \<open>x\<close>.
  The log is not a field of the source; it only records what the source calls.
\<close>

datatype call = NotifyCall oid notification | OnRegisterCall oid | OnRemoveCall oid

record 'w app =
  world :: 'w
  calls :: "call list"

text \<open>\<^verbatim>\<open>IMediator\<close>. \<^verbatim>\<open>listNotificationInterests()\<close> is a method, so what it returns may
  depend on the state of the application at the time of the call.\<close>

record 'w mediator =
  mediator_ref :: oid
  getMediatorName :: string
  listNotificationInterests :: "'w \<Rightarrow> string list"
  handleNotification :: "notification \<Rightarrow> 'w effect"
  onRegister :: "'w effect"
  onRemove :: "'w effect"

text \<open>The base class \<^verbatim>\<open>Mediator\<close> (\<^verbatim>\<open>Mediator.ts\<close>): the name given to the constructor,
  or \<^verbatim>\<open>NAME\<close> when none is given, no interests, and handlers and hooks that do nothing.
  A subclass overrides fields. The view component is never read by the view and is left
  out.\<close>

definition Mediator_NAME :: string where
  "Mediator_NAME = ''Mediator''"

definition Mediator :: "oid \<Rightarrow> string option \<Rightarrow> 'w mediator" where
  "Mediator ref mediatorName =
     \<lparr> mediator_ref = ref,
       getMediatorName = (case mediatorName of Some name \<Rightarrow> name | None \<Rightarrow> Mediator_NAME),
       listNotificationInterests = (\<lambda>w. []),
       handleNotification = (\<lambda>notification w. (Returned (), w)),
       onRegister = (\<lambda>w. (Returned (), w)),
       onRemove = (\<lambda>w. (Returned (), w)) \<rparr>"

text \<open>\<^verbatim>\<open>IProxy\<close>. The data a proxy holds is part of the application state and is read
  through \<^verbatim>\<open>getData()\<close>.\<close>

record ('w, 'd) proxy =
  proxy_ref :: oid
  getProxyName :: string
  getData :: "'w \<Rightarrow> 'd"
  onRegisterProxy :: "'w effect"
  onRemoveProxy :: "'w effect"

section \<open>Observer\<close>

text \<open>The class \<^verbatim>\<open>Observer\<close> (imported by the view from \<^verbatim>\<open>../patterns/observer/Observer\<close>;
  its code is the \<^verbatim>\<open>class Observer\<close> found in \<^verbatim>\<open>jest.config.ts\<close>). It has two fields,
  \<^verbatim>\<open>notify\<close> and \<^verbatim>\<open>context\<close>, set by the constructor and read by \<^verbatim>\<open>getNotifyMethod()\<close>
  and \<^verbatim>\<open>getNotifyContext()\<close>; the context is the object the method is invoked on. Here
  \<open>getNotifyMethod\<close> is the method already applied to that receiver, and
  \<open>getNotifyContext\<close> the identity of the receiver.\<close>

record 'w observer =
  getNotifyMethod :: "notification \<Rightarrow> 'w effect"
  getNotifyContext :: oid

text \<open>\<^verbatim>\<open>async notifyObserver(notification)\<close>, whose body is
  \<^verbatim>\<open>await this.getNotifyMethod().call(this.getNotifyContext(), notification)\<close>: the method
  is invoked with the context as receiver, the call is awaited, and what it throws (or
  the rejection of what it returns) is the outcome.\<close>

definition notifyObserver :: "'w observer \<Rightarrow> notification \<Rightarrow> 'w app \<Rightarrow> unit completion \<times> 'w app" where
  "notifyObserver ob notification a =
     (case getNotifyMethod ob notification (world a) of
        (r, w') \<Rightarrow> (r, a\<lparr>world := w', calls := calls a @ [NotifyCall (getNotifyContext ob) notification]\<rparr>))"

text \<open>\<^verbatim>\<open>compareNotifyContext(object)\<close>, whose body is \<^verbatim>\<open>return object === this.context\<close>.\<close>

definition compareNotifyContext :: "'w observer \<Rightarrow> oid \<Rightarrow> bool" where
  "compareNotifyContext ob object = (object = getNotifyContext ob)"

section \<open>View\<close>

text \<open>
  The two private fields of a \<^verbatim>\<open>View\<close> object. A JavaScript \<^verbatim>\<open>Map\<close> iterates its keys
  in insertion order, and \<^verbatim>\<open>dispose\<close> iterates the keys of \<^verbatim>\<open>#mediatorMap\<close>, so that one
  is an association list: \<open>map_of\<close> is \<^verbatim>\<open>get\<close>, \<open>AList.update\<close> is \<^verbatim>\<open>set\<close> (a new key
  goes last, an old key keeps its place), \<open>AList.delete\<close> is \<^verbatim>\<open>delete\<close>. The keys of
  \<^verbatim>\<open>#observerMap\<close> are never iterated, so it is a map, and each observer array is a list.
\<close>

record 'w view =
  mediatorMap :: "(string \<times> 'w mediator) list"
  observerMap :: "string \<rightharpoonup> 'w observer list"

text \<open>The state the constructor gives a \<^verbatim>\<open>View\<close>: two new, empty maps.\<close>

definition new_View :: "'w view" where
  "new_View = \<lparr>mediatorMap = [], observerMap = Map.empty\<rparr>"

definition registerObserver :: "string \<Rightarrow> 'w observer \<Rightarrow> 'w view \<Rightarrow> 'w view" where
  "registerObserver notificationName ob v =
     (case observerMap v notificationName of
        Some observers \<Rightarrow> v\<lparr>observerMap := (observerMap v)(notificationName \<mapsto> observers @ [ob])\<rparr>
      | None \<Rightarrow> v\<lparr>observerMap := (observerMap v)(notificationName \<mapsto> [ob])\<rparr>)"

text \<open>The loop \<^verbatim>\<open>let i = observers.length; while (i--) { ... }\<close>: the argument is the value
  of \<open>i\<close> when the condition is tested; the body sees \<open>i - 1\<close>, and \<^verbatim>\<open>splice(i, 1)\<close>
  followed by \<^verbatim>\<open>break\<close> ends the scan at the first match from the end.\<close>

fun removeObserver_scan :: "nat \<Rightarrow> oid \<Rightarrow> 'w observer list \<Rightarrow> 'w observer list" where
  "removeObserver_scan 0 notifyContext observers = observers"
| "removeObserver_scan (Suc i) notifyContext observers =
     (if compareNotifyContext (observers ! i) notifyContext
      then take i observers @ drop (Suc i) observers
      else removeObserver_scan i notifyContext observers)"

definition removeObserver :: "string \<Rightarrow> oid \<Rightarrow> 'w view \<Rightarrow> 'w view" where
  "removeObserver notificationName notifyContext v =
     (case observerMap v notificationName of
        None \<Rightarrow> v
      | Some observers \<Rightarrow>
          (let observers' = removeObserver_scan (length observers) notifyContext observers
           in if length observers' = 0
              then v\<lparr>observerMap := (observerMap v)(notificationName := None)\<rparr>
              else v\<lparr>observerMap := (observerMap v)(notificationName \<mapsto> observers')\<rparr>))"

text \<open>The loop \<^verbatim>\<open>for (const observer of observers) await observer.notifyObserver(notification)\<close>:
  an observer starts only when the one before it has returned; a failure ends the loop.
  The source iterates the array stored in the map itself, not a copy, so an observer
  registered or removed under this name while the loop runs would change what the loop
  visits. A handler here changes the application's state only, so the array is the same
  at every step and the loop is a recursion over the list read at the start.\<close>

fun notifyObservers_loop :: "'w observer list \<Rightarrow> notification \<Rightarrow> 'w app \<Rightarrow> unit completion \<times> 'w app" where
  "notifyObservers_loop [] notification a = (Returned (), a)"
| "notifyObservers_loop (ob # observers) notification a =
     (case notifyObserver ob notification a of
        (Thrown e, a') \<Rightarrow> (Thrown e, a')
      | (Returned u, a') \<Rightarrow> notifyObservers_loop observers notification a')"

definition notifyObservers :: "notification \<Rightarrow> 'w view \<Rightarrow> 'w app \<Rightarrow> unit completion \<times> 'w app" where
  "notifyObservers notification v a =
     (let notificationName = getName notification
      in case observerMap v notificationName of
           None \<Rightarrow> (Returned (), a)
         | Some observers \<Rightarrow> notifyObservers_loop observers notification a)"

definition hasMediator :: "string \<Rightarrow> 'w view \<Rightarrow> bool" where
  "hasMediator mediatorName v = (mediatorName \<in> set (map fst (mediatorMap v)))"

definition retrieveMediator :: "string \<Rightarrow> 'w view \<Rightarrow> 'w mediator option" where
  "retrieveMediator mediatorName v = map_of (mediatorMap v) mediatorName"

definition registerMediator :: "'w mediator \<Rightarrow> 'w view \<times> 'w app \<Rightarrow> unit completion \<times> 'w view \<times> 'w app" where
  "registerMediator m va =
     (case va of (v, a) \<Rightarrow>
        (let name = getMediatorName m
         in if hasMediator name v then (Returned (), v, a)
            else
              (let v1 = v\<lparr>mediatorMap := AList.update name m (mediatorMap v)\<rparr>;
                   interests = listNotificationInterests m (world a);
                   v2 = (if length interests > 0
                         then (let ob = \<lparr>getNotifyMethod = handleNotification m, getNotifyContext = mediator_ref m\<rparr>
                               in foldl (\<lambda>v' interest. registerObserver interest ob v') v1 interests)
                         else v1)
               in case onRegister m (world a) of
                    (r, w') \<Rightarrow> (r, v2, a\<lparr>world := w', calls := calls a @ [OnRegisterCall (mediator_ref m)]\<rparr>))))"

definition removeMediator :: "string \<Rightarrow> 'w view \<times> 'w app \<Rightarrow> 'w mediator option completion \<times> 'w view \<times> 'w app" where
  "removeMediator mediatorName va =
     (case va of (v, a) \<Rightarrow>
        (case map_of (mediatorMap v) mediatorName of
           None \<Rightarrow> (Returned None, v, a)
         | Some m \<Rightarrow>
             (let interests = listNotificationInterests m (world a);
                  v1 = foldl (\<lambda>v' interest. removeObserver interest (mediator_ref m) v') v interests;
                  v2 = v1\<lparr>mediatorMap := AList.delete mediatorName (mediatorMap v1)\<rparr>
              in case onRemove m (world a) of
                   (Returned u, w') \<Rightarrow>
                     (Returned (Some m), v2, a\<lparr>world := w', calls := calls a @ [OnRemoveCall (mediator_ref m)]\<rparr>)
                 | (Thrown e, w') \<Rightarrow>
                     (Thrown e, v2, a\<lparr>world := w', calls := calls a @ [OnRemoveCall (mediator_ref m)]\<rparr>))))"

text \<open>The loop of \<^verbatim>\<open>dispose\<close>, \<^verbatim>\<open>names.forEach((name) => this.removeMediator(name))\<close>.\<close>

fun removeMediators :: "string list \<Rightarrow> 'w view \<times> 'w app \<Rightarrow> unit completion \<times> 'w view \<times> 'w app" where
  "removeMediators [] va = (Returned (), va)"
| "removeMediators (name # names) va =
     (case removeMediator name va of
        (Thrown e, va') \<Rightarrow> (Thrown e, va')
      | (Returned r, va') \<Rightarrow> removeMediators names va')"

subsection \<open>The View singleton\<close>

text \<open>
  The static field \<^verbatim>\<open>View.instance\<close> and the \<^verbatim>\<open>View\<close> objects constructed so far.
  \<^verbatim>\<open>new View()\<close> makes an object with a new identity; \<open>View_count\<close> is the next one.
  An object whose constructor throws is never reachable and is not recorded.
  A reference to an instance stays usable after \<^verbatim>\<open>dispose\<close>, so the objects are kept.
\<close>

record 'w View_class =
  View_instance :: "oid option"
  View_objects :: "oid \<Rightarrow> 'w view"
  View_count :: nat

definition View_SINGLETON_MSG :: string where
  "View_SINGLETON_MSG = ''View singleton already constructed!''"

definition View_constructor :: "'w View_class \<Rightarrow> oid completion \<times> 'w View_class" where
  "View_constructor c =
     (case View_instance c of
        Some i \<Rightarrow> (Thrown (Error View_SINGLETON_MSG), c)
      | None \<Rightarrow>
          (let this = View_count c
           in (Returned this,
               c\<lparr>View_instance := Some this,
                 View_objects := (View_objects c)(this := new_View),
                 View_count := Suc this\<rparr>)))"


definition View_dispose :: "oid \<Rightarrow> 'w View_class \<times> 'w app \<Rightarrow> unit completion \<times> 'w View_class \<times> 'w app" where
  "View_dispose this ca =
     (case ca of (c, a) \<Rightarrow>
        (let names = map fst (mediatorMap (View_objects c this))
         in case removeMediators names (View_objects c this, a) of
              (Thrown e, v', a') \<Rightarrow> (Thrown e, c\<lparr>View_objects := (View_objects c)(this := v')\<rparr>, a')
            | (Returned u, v', a') \<Rightarrow>
                (Returned (), c\<lparr>View_objects := (View_objects c)(this := v'), View_instance := None\<rparr>, a')))"

section \<open>Model\<close>

record ('w, 'd) model =
  proxyMap :: "(string \<times> ('w, 'd) proxy) list"

definition new_Model :: "('w, 'd) model" where
  "new_Model = \<lparr>proxyMap = []\<rparr>"

definition registerProxy :: "('w, 'd) proxy \<Rightarrow> ('w, 'd) model \<times> 'w app \<Rightarrow> unit completion \<times> ('w, 'd) model \<times> 'w app" where
  "registerProxy p ma =
     (case ma of (mo, a) \<Rightarrow>
        (let mo1 = mo\<lparr>proxyMap := AList.update (getProxyName p) p (proxyMap mo)\<rparr>
         in case onRegisterProxy p (world a) of
              (r, w') \<Rightarrow> (r, mo1, a\<lparr>world := w', calls := calls a @ [OnRegisterCall (proxy_ref p)]\<rparr>)))"

definition removeProxy :: "string \<Rightarrow> ('w, 'd) model \<times> 'w app \<Rightarrow> ('w, 'd) proxy option completion \<times> ('w, 'd) model \<times> 'w app" where
  "removeProxy proxyName ma =
     (case ma of (mo, a) \<Rightarrow>
        (case map_of (proxyMap mo) proxyName of
           None \<Rightarrow> (Returned None, mo, a)
         | Some p \<Rightarrow>
             (let mo1 = mo\<lparr>proxyMap := AList.delete proxyName (proxyMap mo)\<rparr>
              in case onRemoveProxy p (world a) of
                   (Returned u, w') \<Rightarrow>
                     (Returned (Some p), mo1, a\<lparr>world := w', calls := calls a @ [OnRemoveCall (proxy_ref p)]\<rparr>)
                 | (Thrown e, w') \<Rightarrow>
                     (Thrown e, mo1, a\<lparr>world := w', calls := calls a @ [OnRemoveCall (proxy_ref p)]\<rparr>))))"

definition retrieveProxy :: "string \<Rightarrow> ('w, 'd) model \<Rightarrow> ('w, 'd) proxy option" where
  "retrieveProxy proxyName mo = map_of (proxyMap mo) proxyName"

definition hasProxy :: "string \<Rightarrow> ('w, 'd) model \<Rightarrow> bool" where
  "hasProxy proxyName mo = (proxyName \<in> set (map fst (proxyMap mo)))"


subsection \<open>The Model singleton\<close>

record ('w, 'd) Model_class =
  Model_instance :: "oid option"
  Model_objects :: "oid \<Rightarrow> ('w, 'd) model"
  Model_count :: nat

definition Model_SINGLETON_MSG :: string where
  "Model_SINGLETON_MSG = ''Model singleton already constructed!''"

definition Model_constructor :: "('w, 'd) Model_class \<Rightarrow> oid completion \<times> ('w, 'd) Model_class" where
  "Model_constructor c =
     (case Model_instance c of
        Some i \<Rightarrow> (Thrown (Error Model_SINGLETON_MSG), c)
      | None \<Rightarrow>
          (let this = Model_count c
           in (Returned this,
               c\<lparr>Model_instance := Some this,
                 Model_objects := (Model_objects c)(this := new_Model),
                 Model_count := Suc this\<rparr>)))"



section \<open>Reachable states and auxiliary notions\<close>

text \<open>
  The states a \<^verbatim>\<open>View\<close> object can be in: it starts as the constructor leaves it, and
  every public method may then be called with any arguments, in any state of the
  application and with any outcome of the hooks. \<^verbatim>\<open>notifyObservers\<close> does not write
  to the maps; \<^verbatim>\<open>dispose\<close> is a method of the object \<open>this\<close> of a class state.
\<close>

inductive reachable :: "'w view \<Rightarrow> bool" where
  constructed: "reachable new_View"
| by_registerObserver: "reachable v \<Longrightarrow> reachable (registerObserver notificationName ob v)"
| by_removeObserver: "reachable v \<Longrightarrow> reachable (removeObserver notificationName notifyContext v)"
| by_registerMediator: "reachable v \<Longrightarrow> registerMediator m (v, a) = (r, v', a') \<Longrightarrow> reachable v'"
| by_removeMediator: "reachable v \<Longrightarrow> removeMediator mediatorName (v, a) = (r, v', a') \<Longrightarrow> reachable v'"
| by_notifyObservers: "reachable v \<Longrightarrow> notifyObservers notification v a = (r, a') \<Longrightarrow> reachable v"
| by_dispose: "reachable (View_objects c this) \<Longrightarrow> View_dispose this (c, a) = (r, c', a') \<Longrightarrow>
     reachable (View_objects c' this)"

text \<open>The invariant of the observer map, as a predicate on one state.\<close>

definition no_empty_list :: "'w view \<Rightarrow> bool" where
  "no_empty_list v \<longleftrightarrow> (\<forall>k obs. observerMap v k = Some obs \<longrightarrow> obs \<noteq> [])"

text \<open>How many observers with the context \<open>c\<close> are listed under the name \<open>x\<close>.\<close>

definition context_count :: "'w view \<Rightarrow> string \<Rightarrow> oid \<Rightarrow> nat" where
  "context_count v x c =
     length (filter (\<lambda>ob. getNotifyContext ob = c) (case observerMap v x of None \<Rightarrow> [] | Some l \<Rightarrow> l))"

text \<open>The state of the application after the notification methods of the first \<open>i\<close>
  observers of a list have run on the notification, one after the other, from the state
  \<open>w\<close>: the state in which the observer at index \<open>i\<close> is invoked, if the dispatch gets
  that far.\<close>

definition world_after :: "'w observer list \<Rightarrow> notification \<Rightarrow> 'w \<Rightarrow> nat \<Rightarrow> 'w" where
  "world_after observers notification w i =
     foldl (\<lambda>w' ob. snd (getNotifyMethod ob notification w')) w (take i observers)"

section \<open>Example objects\<close>

text \<open>\<^verbatim>\<open>new Notification(name, body, type)\<close>, and an application state with nothing
  called yet.\<close>

definition Notification :: "string \<Rightarrow> oid option \<Rightarrow> string option \<Rightarrow> notification" where
  "Notification name body type = \<lparr>getName = name, getBody = body, getType = type\<rparr>"

definition start :: "'w \<Rightarrow> 'w app" where
  "start w = \<lparr>world = w, calls = []\<rparr>"

text \<open>
  Three observers over a state of two numbers, \<open>(value, seen)\<close>: \<open>observerA\<close> sets
  \<open>value\<close> to 1, \<open>observerB\<close> copies \<open>value\<close> into \<open>seen\<close>, \<open>observerF\<close> throws.
\<close>

definition observerA :: "(nat \<times> nat) observer" where
  "observerA = \<lparr>getNotifyMethod = (\<lambda>n w. (Returned (), (1, snd w))), getNotifyContext = 1\<rparr>"

definition observerB :: "(nat \<times> nat) observer" where
  "observerB = \<lparr>getNotifyMethod = (\<lambda>n w. (Returned (), (fst w, fst w))), getNotifyContext = 2\<rparr>"

definition observerF :: "(nat \<times> nat) observer" where
  "observerF = \<lparr>getNotifyMethod = (\<lambda>n w. (Thrown (Error ''handler failed''), w)), getNotifyContext = 3\<rparr>"

definition view_AB :: "(nat \<times> nat) view" where
  "view_AB = registerObserver ''N'' observerB (registerObserver ''N'' observerA new_View)"

definition view_AFB :: "(nat \<times> nat) view" where
  "view_AFB =
     registerObserver ''N'' observerB
       (registerObserver ''N'' observerF (registerObserver ''N'' observerA new_View))"

text \<open>
  Mediators over a counter of handled notifications. \<open>mediator_M\<close> is interested in
  \<^verbatim>\<open>"X"\<close> and \<^verbatim>\<open>"Y"\<close>; \<open>other_M\<close> is another object with the same name; \<open>mediator_D\<close>
  reports \<^verbatim>\<open>["X", "Y"]\<close> while the counter is 0 and \<^verbatim>\<open>["X"]\<close> afterwards, and its
  \<^verbatim>\<open>onRegister\<close> sets the counter to 1.
\<close>

definition mediator_M :: "nat mediator" where
  "mediator_M = (Mediator 10 (Some ''M''))
     \<lparr>listNotificationInterests := (\<lambda>w. [''X'', ''Y'']),
      handleNotification := (\<lambda>n w. (Returned (), Suc w))\<rparr>"

definition other_M :: "nat mediator" where
  "other_M = Mediator 11 (Some ''M'')"

definition mediator_D :: "nat mediator" where
  "mediator_D = (Mediator 12 (Some ''D''))
     \<lparr>listNotificationInterests := (\<lambda>w. if w = 0 then [''X'', ''Y''] else [''X'']),
      onRegister := (\<lambda>w. (Returned (), 1))\<rparr>"

text \<open>\<open>mediator_T\<close> is a mediator whose \<^verbatim>\<open>onRemove\<close> throws.\<close>

definition mediator_T :: "nat mediator" where
  "mediator_T = (Mediator 13 (Some ''T''))\<lparr>onRemove := (\<lambda>w. (Thrown (Error ''onRemove failed''), w))\<rparr>"

text \<open>A view in which \<open>other_M\<close> holds the name \<^verbatim>\<open>"M"\<close>, one in which an observer on
  \<open>mediator_M\<close> was registered by hand under \<^verbatim>\<open>"X"\<close>, and one with \<open>mediator_D\<close>
  registered.\<close>

definition view_other :: "nat view" where
  "view_other = fst (snd (registerMediator other_M (new_View, start 0)))"

definition view_by_hand :: "nat view" where
  "view_by_hand =
     registerObserver ''X''
       \<lparr>getNotifyMethod = handleNotification mediator_M, getNotifyContext = mediator_ref mediator_M\<rparr>
       new_View"

definition view_D :: "nat view" where
  "view_D = fst (snd (registerMediator mediator_D (new_View, start 0)))"

text \<open>
  Proxies. The state of \<open>colors\<close> is its data, its hooks do nothing.
  \<open>ModelTestProxy\<close> is the proxy of \<^verbatim>\<open>Model.test.ts\<close>: its data is a string, which
  \<^verbatim>\<open>onRegister\<close> and \<^verbatim>\<open>onRemove\<close> overwrite. The \<^verbatim>\<open>onRemove\<close> of \<open>proxy_T\<close> throws.
  \<open>sizes_old\<close> and \<open>sizes_new\<close> are two proxies with one name.
\<close>

definition colors :: "(string list, string list) proxy" where
  "colors =
     \<lparr>proxy_ref = 20, getProxyName = ''colors'', getData = (\<lambda>w. w),
      onRegisterProxy = (\<lambda>w. (Returned (), w)), onRemoveProxy = (\<lambda>w. (Returned (), w))\<rparr>"

definition ModelTestProxy :: "(string, string) proxy" where
  "ModelTestProxy =
     \<lparr>proxy_ref = 21, getProxyName = ''ModelTestProxy'', getData = (\<lambda>w. w),
      onRegisterProxy = (\<lambda>w. (Returned (), ''onRegister Called'')),
      onRemoveProxy = (\<lambda>w. (Returned (), ''onRemove Called''))\<rparr>"

definition proxy_T :: "(nat, nat) proxy" where
  "proxy_T =
     \<lparr>proxy_ref = 24, getProxyName = ''T'', getData = (\<lambda>w. w),
      onRegisterProxy = (\<lambda>w. (Returned (), w)),
      onRemoveProxy = (\<lambda>w. (Thrown (Error ''onRemove failed''), w))\<rparr>"

definition sizes_old :: "(nat, nat) proxy" where
  "sizes_old =
     \<lparr>proxy_ref = 22, getProxyName = ''sizes'', getData = (\<lambda>w. w),
      onRegisterProxy = (\<lambda>w. (Returned (), w)), onRemoveProxy = (\<lambda>w. (Returned (), w))\<rparr>"

definition sizes_new :: "(nat, nat) proxy" where
  "sizes_new =
     \<lparr>proxy_ref = 23, getProxyName = ''sizes'', getData = (\<lambda>w. w),
      onRegisterProxy = (\<lambda>w. (Returned (), Suc w)), onRemoveProxy = (\<lambda>w. (Returned (), w))\<rparr>"

text \<open>
  The objects of the tests of the repository (\<^verbatim>\<open>part_000\<close>, \<^verbatim>\<open>Model.test.ts\<close>): the
  observer that stores the body of the notification in \<^verbatim>\<open>testVariable\<close>, the note
  \<^verbatim>\<open>ViewTestNote\<close>, \<^verbatim>\<open>ViewTestMediator\<close> with its three interests, and
  \<^verbatim>\<open>ViewTestMediator4\<close>, whose hooks set the flags \<^verbatim>\<open>onRegisterCalled\<close> and
  \<^verbatim>\<open>onRemoveCalled\<close> of its view component.
\<close>

definition ViewTestNote_create :: "oid \<Rightarrow> notification" where
  "ViewTestNote_create body = Notification ''ViewTestNote'' (Some body) None"

definition test_observer :: "int observer" where
  "test_observer =
     \<lparr>getNotifyMethod = (\<lambda>n testVariable.
          (Returned (), case getBody n of Some body \<Rightarrow> int body | None \<Rightarrow> testVariable)),
      getNotifyContext = 30\<rparr>"

definition ViewTestMediator :: "unit mediator" where
  "ViewTestMediator = (Mediator 31 (Some ''ViewTestMediator''))
     \<lparr>listNotificationInterests := (\<lambda>w. [''ABC'', ''DEF'', ''GHI''])\<rparr>"

definition ViewTestMediator4 :: "(bool \<times> bool) mediator" where
  "ViewTestMediator4 = (Mediator 32 (Some ''ViewTestMediator4''))
     \<lparr>onRegister := (\<lambda>w. (Returned (), (True, snd w))),
      onRemove := (\<lambda>w. (Returned (), (fst w, True)))\<rparr>"

text \<open>Class states in which the singleton exists: a \<^verbatim>\<open>View\<close> with \<open>mediator_M\<close>
  registered, one with \<open>mediator_T\<close> registered, a \<^verbatim>\<open>Model\<close> with \<open>colors\<close>
  registered.\<close>

definition View_live :: "nat View_class" where
  "View_live =
     \<lparr>View_instance = Some 0,
      View_objects = (\<lambda>x. new_View)(0 := fst (snd (registerMediator mediator_M (new_View, start 0)))),
      View_count = 1\<rparr>"


definition Model_live :: "(string list, string list) Model_class" where
  "Model_live =
     \<lparr>Model_instance = Some 0,
      Model_objects = (\<lambda>x. new_Model)(0 := fst (snd (registerProxy colors (new_Model, start [])))),
      Model_count = 1\<rparr>"

section \<open>Facts about the operations\<close>

lemma observerMap_registerObserver:
  "observerMap (registerObserver x ob v) y =
     (if y = x then Some ((case observerMap v x of None \<Rightarrow> [] | Some l \<Rightarrow> l) @ [ob]) else observerMap v y)"
  by (simp add: registerObserver_def split: option.splits)

lemma mediatorMap_registerObserver: "mediatorMap (registerObserver x ob v) = mediatorMap v"
  by (simp add: registerObserver_def split: option.splits)

lemma mediatorMap_removeObserver: "mediatorMap (removeObserver x c v) = mediatorMap v"
  by (simp add: removeObserver_def Let_def split: option.splits)

lemma mediatorMap_foldl_registerObserver:
  "mediatorMap (foldl (\<lambda>v' i. registerObserver i ob v') v is) = mediatorMap v"
  by (induction "is" arbitrary: v) (simp_all add: mediatorMap_registerObserver)

lemma mediatorMap_foldl_removeObserver:
  "mediatorMap (foldl (\<lambda>v' i. removeObserver i c v') v is) = mediatorMap v"
  by (induction "is" arbitrary: v) (simp_all add: mediatorMap_removeObserver)

lemma removeObserver_scan_cases:
  "n \<le> length obs \<Longrightarrow>
     (removeObserver_scan n c obs = obs \<and> (\<forall>i<n. getNotifyContext (obs ! i) \<noteq> c)) \<or>
     (\<exists>i<n. getNotifyContext (obs ! i) = c \<and> (\<forall>j<n. i < j \<longrightarrow> getNotifyContext (obs ! j) \<noteq> c) \<and>
            removeObserver_scan n c obs = take i obs @ drop (Suc i) obs)"
proof (induction n)
  case 0
  then show ?case by simp
next
  case (Suc n)
  show ?case
  proof (cases "getNotifyContext (obs ! n) = c")
    case True
    then have "removeObserver_scan (Suc n) c obs = take n obs @ drop (Suc n) obs"
      by (simp add: compareNotifyContext_def)
    with True show ?thesis by (intro disjI2 exI[of _ n]) auto
  next
    case False
    then have eq: "removeObserver_scan (Suc n) c obs = removeObserver_scan n c obs"
      by (auto simp add: compareNotifyContext_def)
    from Suc have "n \<le> length obs" by simp
    from Suc.IH[OF this] show ?thesis
    proof
      assume "removeObserver_scan n c obs = obs \<and> (\<forall>i<n. getNotifyContext (obs ! i) \<noteq> c)"
      with False eq show ?thesis by (auto simp: less_Suc_eq)
    next
      assume "\<exists>i<n. getNotifyContext (obs ! i) = c \<and> (\<forall>j<n. i < j \<longrightarrow> getNotifyContext (obs ! j) \<noteq> c) \<and>
            removeObserver_scan n c obs = take i obs @ drop (Suc i) obs"
      then obtain i where "i < n" "getNotifyContext (obs ! i) = c"
        "\<forall>j<n. i < j \<longrightarrow> getNotifyContext (obs ! j) \<noteq> c"
        "removeObserver_scan n c obs = take i obs @ drop (Suc i) obs" by blast
      with False eq show ?thesis
        by (intro disjI2 exI[of _ i]) (auto simp: less_Suc_eq)
    qed
  qed
qed


lemma removeObserver_scan_filter_same:
  "length (filter (\<lambda>ob. getNotifyContext ob = c) (removeObserver_scan (length obs) c obs)) =
     length (filter (\<lambda>ob. getNotifyContext ob = c) obs) - 1"
proof -
  from removeObserver_scan_cases[of "length obs" obs c, OF le_refl]
  show ?thesis
  proof
    assume a: "removeObserver_scan (length obs) c obs = obs \<and> (\<forall>i<length obs. getNotifyContext (obs ! i) \<noteq> c)"
    then have "filter (\<lambda>ob. getNotifyContext ob = c) obs = []"
      by (auto simp: filter_empty_conv in_set_conv_nth)
    with a show ?thesis by simp
  next
    assume "\<exists>i<length obs. getNotifyContext (obs ! i) = c \<and>
       (\<forall>j<length obs. i < j \<longrightarrow> getNotifyContext (obs ! j) \<noteq> c) \<and>
       removeObserver_scan (length obs) c obs = take i obs @ drop (Suc i) obs"
    then obtain i where i: "i < length obs" "getNotifyContext (obs ! i) = c"
      "removeObserver_scan (length obs) c obs = take i obs @ drop (Suc i) obs" by blast
    have "obs = take i obs @ obs ! i # drop (Suc i) obs"
      using i(1) by (simp add: id_take_nth_drop)
    from arg_cong[OF this, of "filter (\<lambda>ob. getNotifyContext ob = c)"]
    have "filter (\<lambda>ob. getNotifyContext ob = c) obs =
       filter (\<lambda>ob. getNotifyContext ob = c) (take i obs) @ obs ! i # filter (\<lambda>ob. getNotifyContext ob = c) (drop (Suc i) obs)"
      using i(2) by simp
    then have "length (filter (\<lambda>ob. getNotifyContext ob = c) obs) =
       Suc (length (filter (\<lambda>ob. getNotifyContext ob = c) (take i obs @ drop (Suc i) obs)))"
      by simp
    with i(3) show ?thesis by simp
  qed
qed

lemma removeObserver_scan_filter_other:
  assumes "c' \<noteq> c"
  shows "filter (\<lambda>ob. getNotifyContext ob = c') (removeObserver_scan (length obs) c obs) =
     filter (\<lambda>ob. getNotifyContext ob = c') obs"
proof -
  from removeObserver_scan_cases[of "length obs" obs c, OF le_refl]
  show ?thesis
  proof
    assume "removeObserver_scan (length obs) c obs = obs \<and> (\<forall>i<length obs. getNotifyContext (obs ! i) \<noteq> c)"
    then show ?thesis by simp
  next
    assume "\<exists>i<length obs. getNotifyContext (obs ! i) = c \<and>
       (\<forall>j<length obs. i < j \<longrightarrow> getNotifyContext (obs ! j) \<noteq> c) \<and>
       removeObserver_scan (length obs) c obs = take i obs @ drop (Suc i) obs"
    then obtain i where i: "i < length obs" "getNotifyContext (obs ! i) = c"
      "removeObserver_scan (length obs) c obs = take i obs @ drop (Suc i) obs" by blast
    have "obs = take i obs @ obs ! i # drop (Suc i) obs"
      using i(1) by (simp add: id_take_nth_drop)
    from arg_cong[OF this, of "filter (\<lambda>ob. getNotifyContext ob = c')"]
    have "filter (\<lambda>ob. getNotifyContext ob = c') obs =
       filter (\<lambda>ob. getNotifyContext ob = c') (take i obs @ drop (Suc i) obs)"
      using i(2) assms by simp
    with i(3) show ?thesis by simp
  qed
qed

lemma context_count_registerObserver:
  "context_count (registerObserver y ob v) x c = context_count v x c + (if x = y \<and> getNotifyContext ob = c then 1 else 0)"
  by (cases "observerMap v y") (simp_all add: context_count_def registerObserver_def)

lemma observers_removeObserver_same:
  "(case observerMap (removeObserver y c v) y of None \<Rightarrow> [] | Some l \<Rightarrow> l) =
     (case observerMap v y of None \<Rightarrow> [] | Some obs \<Rightarrow> removeObserver_scan (length obs) c obs)"
  by (cases "observerMap v y") (simp_all add: removeObserver_def Let_def)

lemma observerMap_removeObserver_other:
  "x \<noteq> y \<Longrightarrow> observerMap (removeObserver y c v) x = observerMap v x"
  by (cases "observerMap v y") (simp_all add: removeObserver_def Let_def)

lemma context_count_removeObserver:
  "context_count (removeObserver y c' v) x c = context_count v x c - (if x = y \<and> c = c' then 1 else 0)"
proof (cases "x = y")
  case False
  then show ?thesis by (simp add: context_count_def observerMap_removeObserver_other)
next
  case xy: True
  show ?thesis
  proof (cases "observerMap v y")
    case None
    with xy show ?thesis
      unfolding context_count_def xy observers_removeObserver_same by simp
  next
    case (Some obs)
    show ?thesis
    proof (cases "c = c'")
      case True
      show ?thesis
        unfolding context_count_def xy observers_removeObserver_same Some True
        by (simp add: removeObserver_scan_filter_same)
    next
      case False
      show ?thesis
        unfolding context_count_def xy observers_removeObserver_same Some
        using False by (simp add: removeObserver_scan_filter_other)
    qed
  qed
qed

lemma context_count_foldl_registerObserver:
  "context_count (foldl (\<lambda>v' i. registerObserver i ob v') v is) x c =
     context_count v x c + (if getNotifyContext ob = c then count_list is x else 0)"
  by (induction "is" arbitrary: v) (auto simp add: context_count_registerObserver)

lemma context_count_foldl_removeObserver:
  "context_count (foldl (\<lambda>v' i. removeObserver i c' v') v is) x c =
     context_count v x c - (if c = c' then count_list is x else 0)"
proof (induction "is" arbitrary: v)
  case Nil
  show ?case by simp
next
  case (Cons i "is")
  have "context_count (foldl (\<lambda>v' i. removeObserver i c' v') v (i # is)) x c =
        context_count (removeObserver i c' v) x c - (if c = c' then count_list is x else 0)"
    using Cons.IH[of "removeObserver i c' v"] by simp
  also have "\<dots> = context_count v x c - (if x = i \<and> c = c' then 1 else 0) - (if c = c' then count_list is x else 0)"
    by (simp only: context_count_removeObserver)
  also have "\<dots> = context_count v x c - (if c = c' then count_list (i # is) x else 0)"
    by (cases "c = c'"; cases "x = i") simp_all
  finally show ?case .
qed

lemma notifyObserver_eq:
  "notifyObserver ob n a =
     (fst (getNotifyMethod ob n (world a)),
      a\<lparr>world := snd (getNotifyMethod ob n (world a)),
        calls := calls a @ [NotifyCall (getNotifyContext ob) n]\<rparr>)"
  by (simp add: notifyObserver_def split: prod.splits)

lemma notifyObservers_loop_Returned:
  "notifyObservers_loop obs n a = (Returned (), a') \<Longrightarrow>
     calls a' = calls a @ map (\<lambda>ob. NotifyCall (getNotifyContext ob) n) obs \<and>
     world a' = foldl (\<lambda>w ob. snd (getNotifyMethod ob n w)) (world a) obs \<and>
     a' = a\<lparr>world := world a', calls := calls a'\<rparr>"
proof (induction obs arbitrary: a)
  case Nil
  then show ?case by simp
next
  case (Cons ob obs)
  obtain r a1 where s: "notifyObserver ob n a = (r, a1)" by (cases "notifyObserver ob n a")
  with Cons.prems have r: "r = Returned ()" and rest: "notifyObservers_loop obs n a1 = (Returned (), a')"
    by (cases r; simp)+
  from s have a1: "a1 = a\<lparr>world := snd (getNotifyMethod ob n (world a)),
        calls := calls a @ [NotifyCall (getNotifyContext ob) n]\<rparr>"
    by (simp add: notifyObserver_eq)
  from Cons.IH[OF rest] show ?case by (simp add: a1)
qed

lemma notifyObservers_loop_prefix:
  "notifyObservers_loop obs n a = (r, a') \<Longrightarrow>
     \<exists>k\<le>length obs. calls a' = calls a @ map (\<lambda>ob. NotifyCall (getNotifyContext ob) n) (take k obs)"
proof (induction obs arbitrary: a)
  case Nil
  then show ?case by simp
next
  case (Cons ob obs)
  obtain r1 a1 where s: "notifyObserver ob n a = (r1, a1)" by (cases "notifyObserver ob n a")
  from s have a1: "calls a1 = calls a @ [NotifyCall (getNotifyContext ob) n]"
    by (auto simp add: notifyObserver_eq)
  show ?case
  proof (cases r1)
    case (Thrown e)
    with s Cons.prems have "a' = a1" by simp
    with a1 show ?thesis by (intro exI[of _ 1]) simp
  next
    case (Returned u)
    with s Cons.prems have "notifyObservers_loop obs n a1 = (r, a')" by simp
    from Cons.IH[OF this] obtain k where "k \<le> length obs"
      "calls a' = calls a1 @ map (\<lambda>ob. NotifyCall (getNotifyContext ob) n) (take k obs)" by blast
    with a1 show ?thesis by (intro exI[of _ "Suc k"]) simp
  qed
qed

lemma notifyObservers_loop_append_Thrown:
  "notifyObservers_loop pre n a = (Returned (), a1) \<Longrightarrow>
   notifyObserver ob n a1 = (Thrown e, a2) \<Longrightarrow>
   notifyObservers_loop (pre @ ob # post) n a = (Thrown e, a2)"
proof (induction pre arbitrary: a)
  case Nil
  then show ?case by simp
next
  case (Cons p pre)
  obtain r1 b where s: "notifyObserver p n a = (r1, b)" by (cases "notifyObserver p n a")
  with Cons.prems(1) have r: "r1 = Returned ()" and rest: "notifyObservers_loop pre n b = (Returned (), a1)"
    by (cases r1; simp)+
  from Cons.IH[OF rest Cons.prems(2)] s r show ?case by simp
qed

lemma world_after_0 [simp]: "world_after obs n w 0 = w"
  by (simp add: world_after_def)

lemma world_after_Cons_Suc [simp]:
  "world_after (ob # obs) n w (Suc i) = world_after obs n (snd (getNotifyMethod ob n w)) i"
  by (simp add: world_after_def)

lemma world_after_Suc:
  "i < length obs \<Longrightarrow>
     world_after obs n w (Suc i) = snd (getNotifyMethod (obs ! i) n (world_after obs n w i))"
  by (simp add: world_after_def take_Suc_conv_app_nth)




lemma registerMediator_present:
  "hasMediator (getMediatorName m) v \<Longrightarrow> registerMediator m (v, a) = (Returned (), v, a)"
  by (simp add: registerMediator_def)

lemma registerMediator_fresh:
  "\<not> hasMediator (getMediatorName m) v \<Longrightarrow>
     registerMediator m (v, a) =
       (fst (onRegister m (world a)),
        foldl (\<lambda>v' interest. registerObserver interest
                 \<lparr>getNotifyMethod = handleNotification m, getNotifyContext = mediator_ref m\<rparr> v')
              (v\<lparr>mediatorMap := AList.update (getMediatorName m) m (mediatorMap v)\<rparr>)
              (listNotificationInterests m (world a)),
        a\<lparr>world := snd (onRegister m (world a)), calls := calls a @ [OnRegisterCall (mediator_ref m)]\<rparr>)"
  by (cases "listNotificationInterests m (world a)")
     (simp_all add: registerMediator_def Let_def split: prod.splits)

lemma removeMediator_absent:
  "map_of (mediatorMap v) name = None \<Longrightarrow> removeMediator name (v, a) = (Returned None, v, a)"
  by (simp add: removeMediator_def)

lemma removeMediator_present:
  "map_of (mediatorMap v) name = Some m \<Longrightarrow>
     removeMediator name (v, a) =
       ((case fst (onRemove m (world a)) of Returned u \<Rightarrow> Returned (Some m) | Thrown e \<Rightarrow> Thrown e),
        (foldl (\<lambda>v' interest. removeObserver interest (mediator_ref m) v') v
               (listNotificationInterests m (world a)))
          \<lparr>mediatorMap := AList.delete name (mediatorMap v)\<rparr>,
        a\<lparr>world := snd (onRemove m (world a)), calls := calls a @ [OnRemoveCall (mediator_ref m)]\<rparr>)"
  by (simp add: removeMediator_def Let_def mediatorMap_foldl_removeObserver
           split: prod.splits completion.splits)

lemma observerMap_foldl_removeObserver_other:
  "x \<notin> set is \<Longrightarrow> observerMap (foldl (\<lambda>v' i. removeObserver i c v') v is) x = observerMap v x"
  by (induction "is" arbitrary: v) (auto simp add: observerMap_removeObserver_other)

lemma hasMediator_map_of: "hasMediator name v \<longleftrightarrow> map_of (mediatorMap v) name \<noteq> None"
  by (simp add: hasMediator_def map_of_eq_None_iff)

lemma context_count_zero_iff:
  "context_count v x c = 0 \<longleftrightarrow> (\<forall>obs. observerMap v x = Some obs \<longrightarrow> (\<forall>ob\<in>set obs. getNotifyContext ob \<noteq> c))"
  by (cases "observerMap v x") (auto simp add: context_count_def filter_empty_conv)

lemma context_count_mediatorMap_update [simp]: "context_count (v\<lparr>mediatorMap := al\<rparr>) x c = context_count v x c"
  by (simp add: context_count_def)


lemma no_empty_list_registerObserver:
  "no_empty_list v \<Longrightarrow> no_empty_list (registerObserver x ob v)"
  by (cases "observerMap v x") (simp_all add: no_empty_list_def registerObserver_def)

lemma no_empty_list_removeObserver:
  "no_empty_list v \<Longrightarrow> no_empty_list (removeObserver x c v)"
  by (cases "observerMap v x") (auto simp add: no_empty_list_def removeObserver_def Let_def)

lemma no_empty_list_mediatorMap [simp]:
  "no_empty_list (v\<lparr>mediatorMap := al\<rparr>) = no_empty_list v"
  by (simp add: no_empty_list_def)

lemma no_empty_list_foldl_registerObserver:
  "no_empty_list v \<Longrightarrow> no_empty_list (foldl (\<lambda>v' i. registerObserver i ob v') v is)"
  by (induction "is" arbitrary: v) (simp_all add: no_empty_list_registerObserver)

lemma no_empty_list_foldl_removeObserver:
  "no_empty_list v \<Longrightarrow> no_empty_list (foldl (\<lambda>v' i. removeObserver i c v') v is)"
  by (induction "is" arbitrary: v) (simp_all add: no_empty_list_removeObserver)

lemma no_empty_list_registerMediator:
  "no_empty_list v \<Longrightarrow> registerMediator m (v, a) = (r, v', a') \<Longrightarrow> no_empty_list v'"
  by (cases "hasMediator (getMediatorName m) v")
     (auto simp add: registerMediator_present registerMediator_fresh no_empty_list_foldl_registerObserver)

lemma no_empty_list_removeMediator:
  "no_empty_list v \<Longrightarrow> removeMediator name (v, a) = (r, v', a') \<Longrightarrow> no_empty_list v'"
  by (cases "map_of (mediatorMap v) name")
     (auto simp add: removeMediator_absent removeMediator_present no_empty_list_foldl_removeObserver)

lemma no_empty_list_removeMediators:
  "no_empty_list v \<Longrightarrow> removeMediators names (v, a) = (r, v', a') \<Longrightarrow> no_empty_list v'"
proof (induction names arbitrary: v a)
  case Nil
  then show ?case by simp
next
  case (Cons name names)
  obtain r1 v1 a1 where s: "removeMediator name (v, a) = (r1, v1, a1)"
    by (cases "removeMediator name (v, a)") auto
  from no_empty_list_removeMediator[OF Cons.prems(1) s] have v1: "no_empty_list v1" .
  show ?case
  proof (cases r1)
    case (Thrown e)
    with s Cons.prems(2) v1 show ?thesis by simp
  next
    case (Returned x)
    with s Cons.prems(2) have "removeMediators names (v1, a1) = (r, v', a')" by simp
    from Cons.IH[OF v1 this] show ?thesis .
  qed
qed

lemma View_dispose_object:
  "View_dispose this (c, a) = (r, c', a') \<Longrightarrow>
     \<exists>r'. removeMediators (map fst (mediatorMap (View_objects c this))) (View_objects c this, a)
            = (r', View_objects c' this, a')"
  by (auto simp add: View_dispose_def Let_def split: prod.splits completion.splits)

lemma reachable_no_empty_list: "reachable v \<Longrightarrow> no_empty_list v"
proof (induction rule: reachable.induct)
  case constructed
  show ?case by (simp add: no_empty_list_def new_View_def)
next
  case (by_registerObserver v notificationName ob)
  then show ?case by (simp add: no_empty_list_registerObserver)
next
  case (by_removeObserver v notificationName notifyContext)
  then show ?case by (simp add: no_empty_list_removeObserver)
next
  case (by_registerMediator v m a r v' a')
  then show ?case by (blast intro: no_empty_list_registerMediator)
next
  case (by_removeMediator v mediatorName a r v' a')
  then show ?case by (blast intro: no_empty_list_removeMediator)
next
  case (by_notifyObservers v notification a r a')
  then show ?case by simp
next
  case (by_dispose c this a r c' a')
  from View_dispose_object[OF by_dispose.hyps(2)] by_dispose.IH
  show ?case by (blast intro: no_empty_list_removeMediators)
qed









lemma registerProxy_eq:
  "registerProxy p (mo, a) =
     (fst (onRegisterProxy p (world a)),
      mo\<lparr>proxyMap := AList.update (getProxyName p) p (proxyMap mo)\<rparr>,
      a\<lparr>world := snd (onRegisterProxy p (world a)), calls := calls a @ [OnRegisterCall (proxy_ref p)]\<rparr>)"
  by (simp add: registerProxy_def Let_def split: prod.splits)


lemma removeProxy_present:
  "map_of (proxyMap mo) name = Some p \<Longrightarrow>
     removeProxy name (mo, a) =
       ((case fst (onRemoveProxy p (world a)) of Returned u \<Rightarrow> Returned (Some p) | Thrown e \<Rightarrow> Thrown e),
        mo\<lparr>proxyMap := AList.delete name (proxyMap mo)\<rparr>,
        a\<lparr>world := snd (onRemoveProxy p (world a)), calls := calls a @ [OnRemoveCall (proxy_ref p)]\<rparr>)"
  by (simp add: removeProxy_def Let_def split: prod.splits completion.splits)

lemma hasProxy_map_of: "hasProxy name mo \<longleftrightarrow> map_of (proxyMap mo) name \<noteq> None"
  by (simp add: hasProxy_def map_of_eq_None_iff)







lemma hasMediator_after_registerMediator:
  "registerMediator m (v, a) = (r, v', a') \<Longrightarrow> hasMediator (getMediatorName m) v'"
proof (cases "hasMediator (getMediatorName m) v")
  case True
  assume "registerMediator m (v, a) = (r, v', a')"
  with True show ?thesis by (simp add: registerMediator_present)
next
  case False
  assume "registerMediator m (v, a) = (r, v', a')"
  with False have "mediatorMap v' = AList.update (getMediatorName m) m (mediatorMap v)"
    by (auto simp add: registerMediator_fresh mediatorMap_foldl_registerObserver)
  then show ?thesis by (simp add: hasMediator_map_of update_conv')
qed

section \<open>The example objects, evaluated\<close>

lemmas view_eval = registerMediator_def removeMediator_def registerObserver_def removeObserver_def
  compareNotifyContext_def notifyObservers_def notifyObserver_def hasMediator_def
  retrieveMediator_def Mediator_def Let_def new_View_def start_def Notification_def
lemmas model_eval = registerProxy_def removeProxy_def retrieveProxy_def hasProxy_def
  Let_def new_Model_def start_def
lemma view_AB_N: "observerMap view_AB ''N'' = Some [observerA, observerB]"
  by (simp add: view_AB_def new_View_def registerObserver_def)
lemma view_AFB_N: "observerMap view_AFB ''N'' = Some [observerA, observerF, observerB]"
  by (simp add: view_AFB_def new_View_def registerObserver_def)
lemma view_D_eval:
  "view_D = \<lparr>mediatorMap = [(''D'', mediator_D)],
            observerMap = [''X'' \<mapsto> [\<lparr>getNotifyMethod = handleNotification mediator_D, getNotifyContext = 12\<rparr>],
                           ''Y'' \<mapsto> [\<lparr>getNotifyMethod = handleNotification mediator_D, getNotifyContext = 12\<rparr>]]\<rparr>"
  by (simp add: view_D_def mediator_D_def view_eval)

section \<open>The tests of the repository, on the model\<close>

text \<open>\<^verbatim>\<open>Register and Notify Observer\<close>: \<^verbatim>\<open>testVariable\<close> is -1, and 10 after the note.\<close>

lemma test_Register_and_Notify_Observer:
  "notifyObservers (ViewTestNote_create 10)
     (registerObserver ''ViewTestNote'' test_observer new_View) (start (- 1)) =
   (Returned (), \<lparr>world = 10, calls = [NotifyCall 30 (ViewTestNote_create 10)]\<rparr>)"
  by (simp add: ViewTestNote_create_def test_observer_def view_eval)

text \<open>\<^verbatim>\<open>Register and Retrieve Mediator\<close>, with the observers the registration makes.\<close>

lemma test_Register_and_Retrieve_Mediator:
  "retrieveMediator ''ViewTestMediator''
     (fst (snd (registerMediator ViewTestMediator (new_View, start ())))) = Some ViewTestMediator \<and>
   map_option (map getNotifyContext)
     (observerMap (fst (snd (registerMediator ViewTestMediator (new_View, start ())))) ''DEF'') = Some [31]"
  by (simp add: ViewTestMediator_def view_eval)

text \<open>\<^verbatim>\<open>Has Mediator\<close> and \<^verbatim>\<open>Register and Remove Mediator\<close>.\<close>

lemma test_Has_Mediator:
  "hasMediator ''hasMediatorTest''
     (fst (snd (registerMediator (Mediator 33 (Some ''hasMediatorTest'')) (new_View, start ())))) \<and>
   \<not> hasMediator ''hasMediatorTest''
     (fst (snd (removeMediator ''hasMediatorTest''
        (snd (registerMediator (Mediator 33 (Some ''hasMediatorTest'')) (new_View, start ())))))) \<and>
   retrieveMediator ''hasMediatorTest''
     (fst (snd (removeMediator ''hasMediatorTest''
        (snd (registerMediator (Mediator 33 (Some ''hasMediatorTest'')) (new_View, start ())))))) = None"
  by (simp add: view_eval)

text \<open>\<^verbatim>\<open>OnRegister and OnRemove\<close>.\<close>

lemma test_OnRegister_and_OnRemove:
  "world (snd (snd (registerMediator ViewTestMediator4 (new_View, start (False, False))))) = (True, False) \<and>
   world (snd (snd (removeMediator ''ViewTestMediator4''
     (snd (registerMediator ViewTestMediator4 (new_View, start (False, False))))))) = (True, True)"
  by (simp add: ViewTestMediator4_def view_eval)

text \<open>The tests of the model: \<^verbatim>\<open>Register and Remove Proxy\<close>, \<^verbatim>\<open>Has Proxy\<close>,
  \<^verbatim>\<open>OnRegister and OnRemove\<close>.\<close>

lemma test_Register_and_Remove_Proxy:
  "hasProxy ''sizes'' (fst (snd (registerProxy sizes_old (new_Model, start 0)))) \<and>
   fst (removeProxy ''sizes'' (snd (registerProxy sizes_old (new_Model, start 0)))) =
     Returned (Some sizes_old) \<and>
   retrieveProxy ''sizes''
     (fst (snd (removeProxy ''sizes'' (snd (registerProxy sizes_old (new_Model, start 0)))))) = None \<and>
   \<not> hasProxy ''sizes''
     (fst (snd (removeProxy ''sizes'' (snd (registerProxy sizes_old (new_Model, start 0))))))"
  by (simp add: sizes_old_def model_eval)

lemma test_Proxy_OnRegister_and_OnRemove:
  "getData ModelTestProxy (world (snd (snd (registerProxy ModelTestProxy (new_Model, start ''''))))) =
     ''onRegister Called'' \<and>
   getData ModelTestProxy (world (snd (snd (removeProxy ''ModelTestProxy''
     (snd (registerProxy ModelTestProxy (new_Model, start ''''))))))) = ''onRemove Called''"
  by (simp add: ModelTestProxy_def model_eval)

section \<open>The claims\<close>

subsection \<open>C1: dispatch in registration order\<close>




subsection \<open>C2: removing a mediator that was just registered\<close>

text \<open>
  Claim C2 fails as it is stated, in three ways. When the name of \<open>m\<close> is already held
  by another mediator, \<^verbatim>\<open>registerMediator(m)\<close> does nothing and \<^verbatim>\<open>removeMediator\<close>
  returns that other mediator. When an observer on \<open>m\<close> was registered by hand under one
  of the interests of \<open>m\<close>, \<^verbatim>\<open>removeMediator\<close> strips one entry per interest, the last
  one, and the entry registered by hand is still notified afterwards. When
  \<^verbatim>\<open>m.onRemove\<close> throws, \<^verbatim>\<open>removeMediator\<close> throws too and returns nothing. In the three
  examples the list of interests of the mediator never changes.
\<close>

theorem registerMediator_then_removeMediator_counterexample:
  "fst (removeMediator (getMediatorName mediator_M)
          (snd (registerMediator mediator_M (view_other, start 0)))) = Returned (Some other_M) \<and>
   mediator_ref other_M \<noteq> mediator_ref mediator_M \<and>
   fst (removeMediator (getMediatorName mediator_M)
          (snd (registerMediator mediator_M (view_by_hand, start 0)))) = Returned (Some mediator_M) \<and>
   calls (snd (notifyObservers (Notification ''X'' None None)
                 (fst (snd (removeMediator (getMediatorName mediator_M)
                              (snd (registerMediator mediator_M (view_by_hand, start 0))))))
                 (start 0))) =
     [NotifyCall (mediator_ref mediator_M) (Notification ''X'' None None)] \<and>
   fst (removeMediator (getMediatorName mediator_T)
          (snd (registerMediator mediator_T (new_View, start 0)))) = Thrown (Error ''onRemove failed'')"
  by (simp add: view_other_def view_by_hand_def mediator_M_def other_M_def mediator_T_def view_eval)

text \<open>
  Claim C2, amended. Let the methods of the application that the view calls
  (\<^verbatim>\<open>onRegister\<close>, \<^verbatim>\<open>onRemove\<close>, \<^verbatim>\<open>listNotificationInterests\<close>, the notification methods)
  act on the application's own state only, none calling back into the view, and let
  \<^verbatim>\<open>listNotificationInterests()\<close> return normally. Let \<open>m\<close> be a mediator whose name is not
  yet in the mediator map, in a view where no observer with context \<open>m\<close> is listed under
  any interest of \<open>m\<close>, and let \<^verbatim>\<open>listNotificationInterests()\<close> return the same list at
  registration and at removal. After \<^verbatim>\<open>registerMediator(m)\<close> and then, with no other
  operation on the view in between, \<^verbatim>\<open>removeMediator(m.getMediatorName())\<close>:
  \<^verbatim>\<open>removeMediator\<close> returns \<open>m\<close>, or throws what \<^verbatim>\<open>m.onRemove\<close> throws; in both cases
  \<^verbatim>\<open>hasMediator\<close> of that name is false, and a later \<^verbatim>\<open>notifyObservers\<close> of a notification
  named by an interest of \<open>m\<close> calls nothing with receiver \<open>m\<close>.
\<close>

theorem registerMediator_then_removeMediator:
  assumes fresh: "\<not> hasMediator (getMediatorName m) v"
      and nopre: "\<forall>x\<in>set (listNotificationInterests m (world a)). \<forall>obs. observerMap v x = Some obs \<longrightarrow>
                    (\<forall>ob\<in>set obs. getNotifyContext ob \<noteq> mediator_ref m)"
      and reg: "registerMediator m (v, a) = (r1, v1, a1)"
      and same: "listNotificationInterests m (world b) = listNotificationInterests m (world a)"
      and rem: "removeMediator (getMediatorName m) (v1, b) = (r2, v2, b2)"
  shows "r2 = (case fst (onRemove m (world b)) of
                 Returned u \<Rightarrow> Returned (Some m) | Thrown e \<Rightarrow> Thrown e) \<and>
         \<not> hasMediator (getMediatorName m) v2 \<and>
         (\<forall>n c r3 c'. getName n \<in> set (listNotificationInterests m (world a)) \<and>
              notifyObservers n v2 c = (r3, c') \<longrightarrow>
              (\<exists>cs. calls c' = calls c @ cs \<and> (\<forall>n'. NotifyCall (mediator_ref m) n' \<notin> set cs)))"
proof -
  let ?L = "listNotificationInterests m (world a)"
  let ?ob = "\<lparr>getNotifyMethod = handleNotification m, getNotifyContext = mediator_ref m\<rparr>"
  from reg fresh have v1: "v1 = foldl (\<lambda>v' interest. registerObserver interest ?ob v')
              (v\<lparr>mediatorMap := AList.update (getMediatorName m) m (mediatorMap v)\<rparr>) ?L"
    by (simp add: registerMediator_fresh)
  then have mm1: "mediatorMap v1 = AList.update (getMediatorName m) m (mediatorMap v)"
    by (simp add: mediatorMap_foldl_registerObserver)
  then have look: "map_of (mediatorMap v1) (getMediatorName m) = Some m"
    by (simp add: update_conv')
  from rem have r2: "r2 = (case fst (onRemove m (world b)) of
                 Returned u \<Rightarrow> Returned (Some m) | Thrown e \<Rightarrow> Thrown e)"
    and v2: "v2 = (foldl (\<lambda>v' interest. removeObserver interest (mediator_ref m) v') v1 ?L)
          \<lparr>mediatorMap := AList.delete (getMediatorName m) (mediatorMap v1)\<rparr>"
    by (simp_all add: removeMediator_present[OF look] same)
  have has: "\<not> hasMediator (getMediatorName m) v2"
    by (simp add: v2 hasMediator_map_of delete_conv')
  have zero: "context_count v2 x (mediator_ref m) = 0" if "x \<in> set ?L" for x
  proof -
    from nopre that have "context_count v x (mediator_ref m) = 0" by (simp add: context_count_zero_iff)
    then show ?thesis
      by (simp add: v2 v1 context_count_foldl_removeObserver context_count_foldl_registerObserver)
  qed
  have notif: "\<exists>cs. calls c' = calls c @ cs \<and> (\<forall>n'. NotifyCall (mediator_ref m) n' \<notin> set cs)"
    if n: "getName n \<in> set ?L" and run: "notifyObservers n v2 c = (r3, c')" for n c r3 c'
  proof (cases "observerMap v2 (getName n)")
    case None
    with run have "c' = c" by (simp add: notifyObservers_def)
    then show ?thesis by simp
  next
    case (Some obs)
    with run have "notifyObservers_loop obs n c = (r3, c')" by (simp add: notifyObservers_def)
    from notifyObservers_loop_prefix[OF this] obtain k where
      k: "calls c' = calls c @ map (\<lambda>ob. NotifyCall (getNotifyContext ob) n) (take k obs)" by blast
    from zero[OF n] Some have "\<forall>ob\<in>set obs. getNotifyContext ob \<noteq> mediator_ref m"
      by (simp add: context_count_zero_iff)
    then have "\<forall>n'. NotifyCall (mediator_ref m) n' \<notin> set (map (\<lambda>ob. NotifyCall (getNotifyContext ob) n) (take k obs))"
      by (auto dest: in_set_takeD)
    with k show ?thesis by blast
  qed
  from r2 has notif show ?thesis by blast
qed

theorem registerMediator_then_removeMediator_witness:
  "\<not> hasMediator (getMediatorName mediator_M) (new_View :: nat view) \<and>
   listNotificationInterests mediator_M (world (start 0)) = [''X'', ''Y''] \<and>
   observerMap (new_View :: nat view) ''X'' = None \<and>
   observerMap (new_View :: nat view) ''Y'' = None \<and>
   listNotificationInterests mediator_M (world (snd (snd (registerMediator mediator_M (new_View, start 0))))) =
     listNotificationInterests mediator_M (world (start 0)) \<and>
   fst (onRemove mediator_M (world (snd (snd (registerMediator mediator_M (new_View, start 0)))))) = Returned () \<and>
   fst (removeMediator (getMediatorName mediator_M) (snd (registerMediator mediator_M (new_View, start 0)))) =
     Returned (Some mediator_M) \<and>
   \<not> hasMediator (getMediatorName mediator_M)
        (fst (snd (removeMediator (getMediatorName mediator_M)
                     (snd (registerMediator mediator_M (new_View, start 0)))))) \<and>
   getName (Notification ''X'' None None) \<in> set (listNotificationInterests mediator_M (world (start 0))) \<and>
   (\<exists>cs. calls (snd (notifyObservers (Notification ''X'' None None)
                       (fst (snd (removeMediator (getMediatorName mediator_M)
                                    (snd (registerMediator mediator_M (new_View, start 0))))))
                       (start 0))) = calls (start (0::nat)) @ cs \<and>
         (\<forall>n'. NotifyCall (mediator_ref mediator_M) n' \<notin> set cs))"
proof -
  let ?reg = "registerMediator mediator_M (new_View, start 0)"
  let ?rem = "removeMediator (getMediatorName mediator_M) (snd ?reg)"
  let ?n = "Notification ''X'' None None"
  have fresh: "\<not> hasMediator (getMediatorName mediator_M) (new_View :: nat view)"
    by (simp add: hasMediator_def new_View_def)
  have nopre: "\<forall>x\<in>set (listNotificationInterests mediator_M (world (start 0))). \<forall>obs.
       observerMap (new_View :: nat view) x = Some obs \<longrightarrow> (\<forall>ob\<in>set obs. getNotifyContext ob \<noteq> mediator_ref mediator_M)"
    by (simp add: new_View_def)
  have reg: "?reg = (fst ?reg, fst (snd ?reg), snd (snd ?reg))" by simp
  have same: "listNotificationInterests mediator_M (world (snd (snd ?reg))) =
     listNotificationInterests mediator_M (world (start 0))"
    by (simp add: mediator_M_def)
  have hook: "fst (onRemove mediator_M (world (snd (snd ?reg)))) = Returned ()"
    by (simp add: mediator_M_def Mediator_def)
  have rem: "removeMediator (getMediatorName mediator_M) (fst (snd ?reg), snd (snd ?reg)) =
     (fst ?rem, fst (snd ?rem), snd (snd ?rem))" by simp
  have n: "getName ?n \<in> set (listNotificationInterests mediator_M (world (start 0)))"
    by (simp add: mediator_M_def Notification_def)
  note T = registerMediator_then_removeMediator[OF fresh nopre reg same rem]
  from T[THEN conjunct2, THEN conjunct2, rule_format, of ?n "start 0"
       "fst (notifyObservers ?n (fst (snd ?rem)) (start 0))" "snd (notifyObservers ?n (fst (snd ?rem)) (start 0))"] n
  have "\<exists>cs. calls (snd (notifyObservers ?n (fst (snd ?rem)) (start 0))) = calls (start (0::nat)) @ cs \<and>
         (\<forall>n'. NotifyCall (mediator_ref mediator_M) n' \<notin> set cs)"
    by simp
  moreover have "listNotificationInterests mediator_M (world (start 0)) = [''X'', ''Y'']"
    and "observerMap (new_View :: nat view) ''X'' = None"
    and "observerMap (new_View :: nat view) ''Y'' = None"
    by (simp_all add: mediator_M_def new_View_def)
  moreover from T[THEN conjunct1] hook have "fst ?rem = Returned (Some mediator_M)"
    by simp
  ultimately show ?thesis
    using T[THEN conjunct2, THEN conjunct1] fresh same hook n by blast
qed

subsection \<open>C3: a failing observer ends the dispatch\<close>

text \<open>
  Claim C3. Let the list of the notification be \<open>pre @ ob # post\<close>, let the observers of
  \<open>pre\<close> return normally and let the handler of \<open>ob\<close> throw \<open>e\<close>. Then
  \<^verbatim>\<open>notifyObservers\<close> fails with the same \<open>e\<close>, and the calls of this dispatch are those
  of \<open>pre\<close> and of \<open>ob\<close>: no observer of \<open>post\<close> is called.
\<close>

theorem notifyObservers_failure_propagates:
  assumes "observerMap v (getName n) = Some (pre @ ob # post)"
      and "notifyObservers_loop pre n a = (Returned (), a1)"
      and "getNotifyMethod ob n (world a1) = (Thrown e, w')"
  shows "notifyObservers n v a =
           (Thrown e, a1\<lparr>world := w', calls := calls a1 @ [NotifyCall (getNotifyContext ob) n]\<rparr>) \<and>
         calls (snd (notifyObservers n v a)) =
           calls a @ map (\<lambda>ob. NotifyCall (getNotifyContext ob) n) (pre @ [ob])"
proof -
  from assms(3) have "notifyObserver ob n a1 =
      (Thrown e, a1\<lparr>world := w', calls := calls a1 @ [NotifyCall (getNotifyContext ob) n]\<rparr>)"
    by (simp add: notifyObserver_eq)
  from notifyObservers_loop_append_Thrown[OF assms(2) this] assms(1)
  have 1: "notifyObservers n v a =
           (Thrown e, a1\<lparr>world := w', calls := calls a1 @ [NotifyCall (getNotifyContext ob) n]\<rparr>)"
    by (simp add: notifyObservers_def)
  from notifyObservers_loop_Returned[OF assms(2)]
  have "calls a1 = calls a @ map (\<lambda>ob. NotifyCall (getNotifyContext ob) n) pre" by simp
  with 1 show ?thesis by simp
qed

theorem notifyObservers_failure_propagates_witness:
  "observerMap view_AFB (getName (Notification ''N'' None None)) = Some ([observerA] @ observerF # [observerB]) \<and>
   notifyObservers_loop [observerA] (Notification ''N'' None None) (start (0, 0)) =
     (Returned (), \<lparr>world = (1, 0), calls = [NotifyCall 1 (Notification ''N'' None None)]\<rparr>) \<and>
   getNotifyMethod observerF (Notification ''N'' None None) (1, 0) = (Thrown (Error ''handler failed''), (1, 0)) \<and>
   notifyObservers (Notification ''N'' None None) view_AFB (start (0, 0)) =
     (Thrown (Error ''handler failed''),
      \<lparr>world = (1, 0),
        calls = [NotifyCall 1 (Notification ''N'' None None), NotifyCall 3 (Notification ''N'' None None)]\<rparr>)"
proof -
  let ?n = "Notification ''N'' None None"
  let ?a1 = "\<lparr>world = (1, 0), calls = [NotifyCall 1 ?n]\<rparr> :: (nat \<times> nat) app"
  have h1: "observerMap view_AFB (getName ?n) = Some ([observerA] @ observerF # [observerB])"
    by (simp add: view_AFB_N Notification_def)
  have h2: "notifyObservers_loop [observerA] ?n (start (0, 0)) = (Returned (), ?a1)"
    by (simp add: notifyObserver_def observerA_def start_def)
  have h3: "getNotifyMethod observerF ?n (world ?a1) = (Thrown (Error ''handler failed''), (1, 0))"
    by (simp add: observerF_def)
  from notifyObservers_failure_propagates[OF h1 h2 h3] h1 h2 h3
  show ?thesis by (simp add: observerF_def)
qed

subsection \<open>C4: no empty observer list\<close>

text \<open>
  Claim C4. In every reachable state of a view, a name that is a key of the observer map
  has a non-empty list.
\<close>

theorem observerMap_has_no_empty_list:
  "reachable v \<Longrightarrow> observerMap v notificationName = Some observers \<Longrightarrow> observers \<noteq> []"
  using reachable_no_empty_list[of v] by (simp add: no_empty_list_def)

theorem observerMap_has_no_empty_list_witness:
  "reachable view_AB \<and> observerMap view_AB ''N'' = Some [observerA, observerB] \<and>
   [observerA, observerB] \<noteq> []"
proof -
  have r: "reachable view_AB"
    unfolding view_AB_def by (intro reachable.by_registerObserver reachable.constructed)
  from observerMap_has_no_empty_list[OF r view_AB_N] r view_AB_N show ?thesis by simp
qed

subsection \<open>C5: removal asks the mediator for its interests again\<close>

text \<open>
  Claim C5. For a registered mediator, \<^verbatim>\<open>removeMediator\<close> calls \<^verbatim>\<open>removeObserver\<close> for
  exactly the names \<^verbatim>\<open>listNotificationInterests()\<close> returns at the time of the removal,
  and the observer map is unchanged at every other name: the entries registered under
  a name the mediator no longer reports stay.
\<close>

theorem removeMediator_uses_current_interests:
  assumes "retrieveMediator mediatorName v = Some m"
  shows "fst (snd (removeMediator mediatorName (v, a))) =
           (foldl (\<lambda>v' interest. removeObserver interest (mediator_ref m) v') v
                  (listNotificationInterests m (world a)))
             \<lparr>mediatorMap := AList.delete mediatorName (mediatorMap v)\<rparr> \<and>
         (\<forall>x. x \<notin> set (listNotificationInterests m (world a)) \<longrightarrow>
              observerMap (fst (snd (removeMediator mediatorName (v, a)))) x = observerMap v x)"
  using assms
  by (simp add: retrieveMediator_def removeMediator_present observerMap_foldl_removeObserver_other)

text \<open>
  \<open>mediator_D\<close> was registered under \<^verbatim>\<open>"X"\<close> and \<^verbatim>\<open>"Y"\<close> and reports only \<^verbatim>\<open>"X"\<close>
  when it is removed: its entry under \<^verbatim>\<open>"Y"\<close> stays in the map.
\<close>

theorem removeMediator_uses_current_interests_witness:
  "retrieveMediator ''D'' view_D = Some mediator_D \<and>
   listNotificationInterests mediator_D 0 = [''X'', ''Y''] \<and>
   listNotificationInterests mediator_D (world (start 1)) = [''X''] \<and>
   observerMap (fst (snd (removeMediator ''D'' (view_D, start 1)))) ''X'' = None \<and>
   observerMap (fst (snd (removeMediator ''D'' (view_D, start 1)))) ''Y'' = observerMap view_D ''Y'' \<and>
   observerMap view_D ''Y'' =
     Some [\<lparr>getNotifyMethod = handleNotification mediator_D, getNotifyContext = mediator_ref mediator_D\<rparr>]"
proof -
  have h: "retrieveMediator ''D'' view_D = Some mediator_D"
    by (simp add: view_D_eval retrieveMediator_def)
  have i0: "listNotificationInterests mediator_D 0 = [''X'', ''Y'']"
    and i1: "listNotificationInterests mediator_D (world (start 1)) = [''X'']"
    by (simp_all add: mediator_D_def Mediator_def start_def)
  note T = removeMediator_uses_current_interests[OF h, of "start 1"]
  from T[THEN conjunct2] i1
  have y: "observerMap (fst (snd (removeMediator ''D'' (view_D, start 1)))) ''Y'' = observerMap view_D ''Y''"
    by simp
  from T[THEN conjunct1] i1
  have x: "observerMap (fst (snd (removeMediator ''D'' (view_D, start 1)))) ''X'' = None"
    by (simp add: view_D_eval removeObserver_def compareNotifyContext_def mediator_D_def Mediator_def)
  have "observerMap view_D ''Y'' =
     Some [\<lparr>getNotifyMethod = handleNotification mediator_D, getNotifyContext = mediator_ref mediator_D\<rparr>]"
    by (simp add: view_D_eval) (simp add: mediator_D_def Mediator_def)
  with h i0 i1 x y show ?thesis by simp
qed

subsection \<open>C6: registering a name that is taken\<close>

text \<open>
  Claim C6. When the name of \<open>m\<close> is already in the mediator map, \<^verbatim>\<open>registerMediator(m)\<close>
  returns normally and changes nothing: both maps of the view are as before, so the
  mediator stored under the name is not replaced and no observer is added, and the state
  of the application and the log of calls are as before, so \<^verbatim>\<open>m.onRegister\<close> is not called.
\<close>

theorem registerMediator_existing_name_is_noop:
  "hasMediator (getMediatorName m) v \<Longrightarrow> registerMediator m (v, a) = (Returned (), v, a)"
  by (rule registerMediator_present)

theorem registerMediator_existing_name_is_noop_witness:
  "hasMediator (getMediatorName mediator_M) view_other \<and>
   retrieveMediator ''M'' view_other = Some other_M \<and>
   registerMediator mediator_M (view_other, start 0) = (Returned (), view_other, start 0)"
proof -
  have h: "hasMediator (getMediatorName mediator_M) view_other"
    by (simp add: view_other_def mediator_M_def other_M_def view_eval)
  have "retrieveMediator ''M'' view_other = Some other_M"
    by (simp add: view_other_def other_M_def view_eval)
  with registerMediator_existing_name_is_noop[OF h] h show ?thesis by simp
qed

subsection \<open>C7: registering, retrieving and removing a proxy\<close>

text \<open>
  Claim C7 fails as it is stated: \<^verbatim>\<open>registerProxy\<close> calls \<^verbatim>\<open>p.onRegister()\<close>, and that
  hook may write the data of \<open>p\<close>. The proxy of \<^verbatim>\<open>Model.test.ts\<close> does: its data is the
  empty string before the registration and \<^verbatim>\<open>'onRegister Called'\<close> after it. And
  \<^verbatim>\<open>removeProxy\<close> calls \<^verbatim>\<open>p.onRemove()\<close>: when that hook throws, as the one of
  \<open>proxy_T\<close> does, \<^verbatim>\<open>removeProxy\<close> throws and returns nothing.
\<close>

theorem registerProxy_retrieveProxy_removeProxy_counterexample:
  "retrieveProxy (getProxyName ModelTestProxy)
     (fst (snd (registerProxy ModelTestProxy (new_Model, start '''')))) = Some ModelTestProxy \<and>
   getData ModelTestProxy (world (start '''')) = '''' \<and>
   getData ModelTestProxy (world (snd (snd (registerProxy ModelTestProxy (new_Model, start ''''))))) =
     ''onRegister Called'' \<and>
   fst (removeProxy (getProxyName proxy_T) (snd (registerProxy proxy_T (new_Model, start 0)))) =
     Thrown (Error ''onRemove failed'')"
  by (simp add: ModelTestProxy_def proxy_T_def model_eval)

text \<open>
  Claim C7, amended. Let the methods of the proxy that the model calls (\<^verbatim>\<open>onRegister\<close>,
  \<^verbatim>\<open>onRemove\<close>, \<^verbatim>\<open>getProxyName\<close>) act on the application's own state only, none calling
  back into the model, and let \<^verbatim>\<open>getProxyName()\<close> return normally. After
  \<^verbatim>\<open>registerProxy(p)\<close>, whether \<^verbatim>\<open>p.onRegister\<close> returned or threw, \<^verbatim>\<open>hasProxy\<close> of the
  name of \<open>p\<close> is true and \<^verbatim>\<open>retrieveProxy\<close> returns \<open>p\<close> itself; the model does not write
  the data of \<open>p\<close>, which is what \<^verbatim>\<open>p.onRegister\<close> left. \<^verbatim>\<open>removeProxy\<close> of that name,
  called next on the model, returns \<open>p\<close>, or throws what \<^verbatim>\<open>p.onRemove\<close> throws; in both
  cases \<^verbatim>\<open>hasProxy\<close> is false and \<^verbatim>\<open>retrieveProxy\<close> returns nothing afterwards.
\<close>

theorem registerProxy_retrieveProxy_removeProxy:
  assumes "registerProxy p (mo, a) = (r1, mo1, a1)"
  shows "hasProxy (getProxyName p) mo1 \<and>
         retrieveProxy (getProxyName p) mo1 = Some p \<and>
         getData p (world a1) = getData p (snd (onRegisterProxy p (world a))) \<and>
         (\<forall>b r2 mo2 b2. removeProxy (getProxyName p) (mo1, b) = (r2, mo2, b2) \<longrightarrow>
            r2 = (case fst (onRemoveProxy p (world b)) of
                    Returned u \<Rightarrow> Returned (Some p) | Thrown e \<Rightarrow> Thrown e) \<and>
            \<not> hasProxy (getProxyName p) mo2 \<and>
            retrieveProxy (getProxyName p) mo2 = None)"
proof -
  from assms have mo1: "mo1 = mo\<lparr>proxyMap := AList.update (getProxyName p) p (proxyMap mo)\<rparr>"
    and a1: "world a1 = snd (onRegisterProxy p (world a))"
    by (auto simp add: registerProxy_eq)
  from mo1 have look: "map_of (proxyMap mo1) (getProxyName p) = Some p"
    by (simp add: update_conv')
  have "r2 = (case fst (onRemoveProxy p (world b)) of
                    Returned u \<Rightarrow> Returned (Some p) | Thrown e \<Rightarrow> Thrown e) \<and>
        \<not> hasProxy (getProxyName p) mo2 \<and> retrieveProxy (getProxyName p) mo2 = None"
    if "removeProxy (getProxyName p) (mo1, b) = (r2, mo2, b2)" for b r2 mo2 b2
    using that by (auto simp add: removeProxy_present[OF look] hasProxy_map_of retrieveProxy_def delete_conv')
  with look a1 show ?thesis
    by (simp add: hasProxy_map_of retrieveProxy_def)
qed

text \<open>
  The scenario of the specification: the hooks of \<open>colors\<close> do nothing, and its data is
  the same list of three colours after the registration.
\<close>

theorem registerProxy_retrieveProxy_removeProxy_witness:
  "hasProxy ''colors'' (fst (snd (registerProxy colors (new_Model, start [''red'', ''green'', ''blue''])))) \<and>
   retrieveProxy ''colors'' (fst (snd (registerProxy colors (new_Model, start [''red'', ''green'', ''blue''])))) =
     Some colors \<and>
   getData colors (world (snd (snd (registerProxy colors (new_Model, start [''red'', ''green'', ''blue'']))))) =
     [''red'', ''green'', ''blue''] \<and>
   fst (onRemoveProxy colors (world (snd (snd (registerProxy colors (new_Model, start [''red'', ''green'', ''blue'']))))))
     = Returned () \<and>
   fst (removeProxy ''colors'' (snd (registerProxy colors (new_Model, start [''red'', ''green'', ''blue''])))) =
     Returned (Some colors) \<and>
   \<not> hasProxy ''colors''
       (fst (snd (removeProxy ''colors'' (snd (registerProxy colors (new_Model, start [''red'', ''green'', ''blue'']))))))"
proof -
  let ?a = "start [''red'', ''green'', ''blue''] :: string list app"
  let ?reg = "registerProxy colors (new_Model, ?a)"
  let ?rem = "removeProxy ''colors'' (snd ?reg)"
  have name: "getProxyName colors = ''colors''" by (simp add: colors_def)
  have reg: "?reg = (fst ?reg, fst (snd ?reg), snd (snd ?reg))" by simp
  have rem: "removeProxy (getProxyName colors) (fst (snd ?reg), snd (snd ?reg)) =
      (fst ?rem, fst (snd ?rem), snd (snd ?rem))" by (simp add: name)
  have hook: "fst (onRemoveProxy colors (world (snd (snd ?reg)))) = Returned ()"
    by (simp add: colors_def)
  have data: "getData colors (snd (onRegisterProxy colors (world ?a))) = [''red'', ''green'', ''blue'']"
    by (simp add: colors_def start_def)
  note T = registerProxy_retrieveProxy_removeProxy[OF reg]
  note R = T[THEN conjunct2, THEN conjunct2, THEN conjunct2, rule_format, OF rem]
  from T[THEN conjunct1] T[THEN conjunct2, THEN conjunct1] T[THEN conjunct2, THEN conjunct2, THEN conjunct1]
    R[THEN conjunct1] R[THEN conjunct2, THEN conjunct1] hook data
  show ?thesis by (simp add: name)
qed

subsection \<open>C8: constructing a second singleton\<close>

text \<open>
  Claim C8. While \<^verbatim>\<open>View.instance\<close> is set, the constructor of \<^verbatim>\<open>View\<close> throws the
  error \<^verbatim>\<open>SINGLETON_MSG\<close> and the class state, that is the instance and every object with
  all it has registered, is as before; the same holds for \<^verbatim>\<open>Model\<close>.
\<close>

theorem constructor_throws_when_instance_exists:
  "(View_instance c = Some i \<longrightarrow> View_constructor c = (Thrown (Error View_SINGLETON_MSG), c)) \<and>
   (Model_instance d = Some j \<longrightarrow> Model_constructor d = (Thrown (Error Model_SINGLETON_MSG), d))"
  by (simp add: View_constructor_def Model_constructor_def)

theorem constructor_throws_when_instance_exists_witness:
  "View_instance View_live = Some 0 \<and>
   View_constructor View_live = (Thrown (Error ''View singleton already constructed!''), View_live) \<and>
   Model_instance Model_live = Some 0 \<and>
   Model_constructor Model_live = (Thrown (Error ''Model singleton already constructed!''), Model_live)"
proof -
  have v: "View_instance View_live = Some 0" by (simp add: View_live_def)
  have m: "Model_instance Model_live = Some 0" by (simp add: Model_live_def)
  note T = constructor_throws_when_instance_exists[of View_live 0 Model_live 0]
  from T[THEN conjunct1, THEN mp, OF v] T[THEN conjunct2, THEN mp, OF m] v m
  show ?thesis by (simp add: View_SINGLETON_MSG_def Model_SINGLETON_MSG_def)
qed

subsection \<open>C9: disposing twice, and constructing again\<close>




subsection \<open>C10: registering a proxy under a name that is taken\<close>

text \<open>
  Claim C10. When \<open>p1\<close> and \<open>p2\<close> have the same name, \<^verbatim>\<open>registerProxy(p2)\<close> after
  \<^verbatim>\<open>registerProxy(p1)\<close> is not rejected: \<^verbatim>\<open>retrieveProxy\<close> of the name returns \<open>p2\<close>, the
  one call the second registration makes is \<^verbatim>\<open>p2.onRegister\<close> (so \<^verbatim>\<open>p1.onRemove\<close> is not
  called), and the name keeps its place among the keys. For two mediators with the same
  name the second registration changes nothing.
\<close>

theorem registerProxy_replaces_same_name:
  "(getProxyName p1 = getProxyName p2 \<and>
    registerProxy p1 (mo, a) = (r1, mo1, a1) \<and>
    registerProxy p2 (mo1, b) = (r2, mo2, b2) \<longrightarrow>
      retrieveProxy (getProxyName p1) mo2 = Some p2 \<and>
      r2 = fst (onRegisterProxy p2 (world b)) \<and>
      world b2 = snd (onRegisterProxy p2 (world b)) \<and>
      calls b2 = calls b @ [OnRegisterCall (proxy_ref p2)] \<and>
      map fst (proxyMap mo2) = map fst (proxyMap mo1)) \<and>
   (getMediatorName m1 = getMediatorName m2 \<and>
    registerMediator m1 (v, c) = (q1, v1, c1) \<longrightarrow>
      registerMediator m2 (v1, d) = (Returned (), v1, d))"
proof (intro conjI impI; elim conjE)
  assume names: "getProxyName p1 = getProxyName p2"
    and reg1: "registerProxy p1 (mo, a) = (r1, mo1, a1)"
    and reg2: "registerProxy p2 (mo1, b) = (r2, mo2, b2)"
  from reg1 have "map_of (proxyMap mo1) (getProxyName p1) = Some p1"
    by (auto simp add: registerProxy_eq update_conv')
  then have "getProxyName p2 \<in> fst ` set (proxyMap mo1)"
    using names by (metis map_of_eq_None_iff option.distinct(1))
  then have keys: "map fst (AList.update (getProxyName p2) p2 (proxyMap mo1)) = map fst (proxyMap mo1)"
    by (simp add: update_keys)
  from names reg2 show "retrieveProxy (getProxyName p1) mo2 = Some p2"
    by (auto simp add: registerProxy_eq retrieveProxy_def update_conv')
  from reg2 show "r2 = fst (onRegisterProxy p2 (world b))"
    and "world b2 = snd (onRegisterProxy p2 (world b))"
    and "calls b2 = calls b @ [OnRegisterCall (proxy_ref p2)]"
    by (auto simp add: registerProxy_eq)
  from reg2 keys show "map fst (proxyMap mo2) = map fst (proxyMap mo1)"
    by (auto simp add: registerProxy_eq)
next
  assume "getMediatorName m1 = getMediatorName m2"
    and "registerMediator m1 (v, c) = (q1, v1, c1)"
  with hasMediator_after_registerMediator[of m1 v c q1 v1 c1]
  show "registerMediator m2 (v1, d) = (Returned (), v1, d)"
    by (simp add: registerMediator_present)
qed

theorem registerProxy_replaces_same_name_witness:
  "getProxyName sizes_old = getProxyName sizes_new \<and>
   retrieveProxy ''sizes'' (fst (snd (registerProxy sizes_old (new_Model, start 7)))) = Some sizes_old \<and>
   retrieveProxy ''sizes''
     (fst (snd (registerProxy sizes_new (snd (registerProxy sizes_old (new_Model, start 7)))))) = Some sizes_new \<and>
   snd (snd (registerProxy sizes_new (snd (registerProxy sizes_old (new_Model, start 7))))) =
     \<lparr>world = 8, calls = [OnRegisterCall 22, OnRegisterCall 23]\<rparr> \<and>
   getMediatorName other_M = getMediatorName mediator_M \<and>
   registerMediator mediator_M (view_other, start 0) = (Returned (), view_other, start 0) \<and>
   retrieveMediator ''M'' view_other = Some other_M"
proof -
  let ?r1 = "registerProxy sizes_old (new_Model, start 7)"
  let ?r2 = "registerProxy sizes_new (snd ?r1)"
  let ?q = "registerMediator other_M (new_View, start 0)"
  have names: "getProxyName sizes_old = getProxyName sizes_new"
    by (simp add: sizes_old_def sizes_new_def)
  have mnames: "getMediatorName other_M = getMediatorName mediator_M"
    by (simp add: other_M_def mediator_M_def Mediator_def)
  have r1: "?r1 = (fst ?r1, fst (snd ?r1), snd (snd ?r1))" by simp
  have r2: "registerProxy sizes_new (fst (snd ?r1), snd (snd ?r1)) = (fst ?r2, fst (snd ?r2), snd (snd ?r2))"
    by simp
  have q: "?q = (fst ?q, view_other, snd (snd ?q))" by (simp add: view_other_def)
  note P = registerProxy_replaces_same_name[THEN conjunct1, THEN mp, OF conjI[OF names conjI[OF r1 r2]]]
  note M = registerProxy_replaces_same_name[THEN conjunct2, THEN mp, OF conjI[OF mnames q], of "start 0"]
  have old: "retrieveProxy ''sizes'' (fst (snd ?r1)) = Some sizes_old"
    by (simp add: sizes_old_def model_eval)
  have a1: "snd (snd ?r1) = \<lparr>world = 7, calls = [OnRegisterCall 22]\<rparr>"
    by (simp add: sizes_old_def model_eval)
  from P have "retrieveProxy ''sizes'' (fst (snd ?r2)) = Some sizes_new"
    by (simp add: sizes_old_def)
  moreover from P a1 have "snd (snd ?r2) = \<lparr>world = 8, calls = [OnRegisterCall 22, OnRegisterCall 23]\<rparr>"
    by (cases "snd (snd ?r2)") (simp add: sizes_new_def)
  moreover from M have "registerMediator mediator_M (view_other, start 0) = (Returned (), view_other, start 0)"
    by simp
  moreover have "retrieveMediator ''M'' view_other = Some other_M"
    by (simp add: view_other_def other_M_def view_eval)
  ultimately show ?thesis using names mnames old by simp
qed

end
